theory Spec2Isabelle
  imports Main "HOL-Library.Sublist"
begin

section \<open>MicroShopGen: feature selection, configuration store and generator dispatch\<close>

text \<open>
  A shallow embedding of \<^verbatim>\<open>microshopgen.py\<close> and of
  \<^verbatim>\<open>generators/inventory.py\<close>. Python's effects (the file system, the standard
  output, raised exceptions) are explicit: a computation takes the state of the operating
  system and returns either the exception raised or its value, together with the state it
  leaves behind.
\<close>

subsection \<open>Exceptions, the operating system state, computations\<close>

datatype py_error =
    KeyError string
  | FileNotFoundError string
  | IsADirectoryError string
  | NotADirectoryError string
  | FileExistsError string
  | OSError_ENOSPC string
  | JSONDecodeError

text \<open>
  The file system is keyed by resolved paths (lists of components). \<open>free_space\<close> is
  the number of characters the device still accepts; a write that needs more stores what
  fits and raises. \<open>stdout\<close> is the list of lines printed so far.
\<close>

record os_state =
  dirs :: "string list set"
  files :: "string list \<rightharpoonup> string"
  free_space :: nat
  stdout :: "string list"

type_synonym 'a io = "os_state \<Rightarrow> (py_error + 'a) \<times> os_state"

definition io_return :: "'a \<Rightarrow> 'a io" where
  "io_return x = (\<lambda>w. (Inr x, w))"

definition io_raise :: "py_error \<Rightarrow> 'a io" where
  "io_raise e = (\<lambda>w. (Inl e, w))"

definition io_bind :: "'a io \<Rightarrow> ('a \<Rightarrow> 'b io) \<Rightarrow> 'b io" where
  "io_bind m f = (\<lambda>w. case m w of (Inl e, w') \<Rightarrow> (Inl e, w') | (Inr x, w') \<Rightarrow> f x w')"

definition print :: "string \<Rightarrow> unit io" where
  "print line = (\<lambda>w. (Inr (), w\<lparr>stdout := stdout w @ [line]\<rparr>))"

subsection \<open>Paths and the file operations the program calls\<close>

text \<open>
  \<open>os.path.join(a, b)\<close> for a second argument that does not start with a slash, which
  is the only way the program calls it (\<open>"inventory"\<close>, \<open>"main.py"\<close>).
\<close>

definition os_path_join :: "string \<Rightarrow> string \<Rightarrow> string" where
  "os_path_join a b = (if a = [] \<or> last a = CHR ''/'' then a @ b else a @ ''/'' @ b)"

fun split_sep :: "char \<Rightarrow> string \<Rightarrow> string \<Rightarrow> string list" where
  "split_sep sep acc [] = [acc]"
| "split_sep sep acc (c # cs) =
     (if c = sep then acc # split_sep sep [] cs else split_sep sep (acc @ [c]) cs)"

text \<open>
  Path resolution: an absolute path starts with the root component \<open>''/''\<close>; empty and
  \<open>''.''\<close> components are dropped. The model is that of plain relative or absolute
  paths and simplifies the rest: a trailing slash is ignored (the model identifies \<open>f/\<close>
  with \<open>f\<close>, where the operating system requires \<open>f\<close> to be a directory), \<open>''..''\<close> is
  kept as an ordinary component, and symbolic links are not modelled.
\<close>

definition resolve :: "string \<Rightarrow> string list" where
  "resolve p =
     (if p \<noteq> [] \<and> hd p = CHR ''/'' then [''/''] else []) @
     filter (\<lambda>c. c \<noteq> [] \<and> c \<noteq> ''.'') (split_sep (CHR ''/'') [] p)"

definition is_dir :: "os_state \<Rightarrow> string list \<Rightarrow> bool" where
  "is_dir w q \<longleftrightarrow> q = [] \<or> q = [''/''] \<or> q \<in> dirs w"

definition is_file :: "os_state \<Rightarrow> string list \<Rightarrow> bool" where
  "is_file w q \<longleftrightarrow> \<not> is_dir w q \<and> files w q \<noteq> None"

definition os_path_exists :: "os_state \<Rightarrow> string \<Rightarrow> bool" where
  "os_path_exists w p \<longleftrightarrow> p \<noteq> [] \<and> (is_dir w (resolve p) \<or> is_file w (resolve p))"

text \<open>\<open>os.makedirs(p, exist_ok=True)\<close>: creates \<open>p\<close> and every missing ancestor.\<close>

definition os_makedirs :: "string \<Rightarrow> unit io" where
  "os_makedirs p = (\<lambda>w.
     let q = resolve p in
     if p = [] then (Inl (FileNotFoundError p), w)
     else if \<exists>a \<in> set (prefixes (butlast q)). is_file w a then (Inl (NotADirectoryError p), w)
     else if is_file w q then (Inl (FileExistsError p), w)
     else (Inr (), w\<lparr>dirs := dirs w \<union> set (tl (prefixes q))\<rparr>))"

text \<open>\<open>open(p, "r")\<close> followed by reading the whole file.\<close>

definition read_file :: "string \<Rightarrow> string io" where
  "read_file p = (\<lambda>w.
     if p = [] then (Inl (FileNotFoundError p), w)
     else if is_dir w (resolve p) then (Inl (IsADirectoryError p), w)
     else (case files w (resolve p) of
             None \<Rightarrow> (Inl (FileNotFoundError p), w)
           | Some c \<Rightarrow> (Inr c, w)))"

text \<open>
  \<open>open(p, "w")\<close>: the file is created, or truncated to length zero, at once. The parent
  must be a directory: a regular file there raises \<open>NotADirectoryError\<close>, nothing there
  \<open>FileNotFoundError\<close>.
\<close>

definition open_w :: "string \<Rightarrow> unit io" where
  "open_w p = (\<lambda>w.
     let q = resolve p in
     if p = [] then (Inl (FileNotFoundError p), w)
     else if is_dir w q then (Inl (IsADirectoryError p), w)
     else if is_file w (butlast q) then (Inl (NotADirectoryError p), w)
     else if \<not> is_dir w (butlast q) then (Inl (FileNotFoundError p), w)
     else (Inr (), w\<lparr>files := (files w)(q \<mapsto> [])\<rparr>))"

text \<open>
  Writing \<open>data\<close> to the file opened at \<open>p\<close>: the characters are appended; when the
  device cannot take them all, the part that fits is stored and the write raises.
\<close>

definition file_write :: "string \<Rightarrow> string \<Rightarrow> unit io" where
  "file_write p data = (\<lambda>w.
     let q = resolve p;
         old = (case files w q of None \<Rightarrow> [] | Some c \<Rightarrow> c) in
     if length data \<le> free_space w
     then (Inr (), w\<lparr>files := (files w)(q \<mapsto> old @ data),
                      free_space := free_space w - length data\<rparr>)
     else (Inl (OSError_ENOSPC p),
           w\<lparr>files := (files w)(q \<mapsto> old @ take (free_space w) data),
             free_space := 0\<rparr>))"

subsection \<open>The feature catalog\<close>

record component =
  name :: string
  description :: string
  required :: bool

record category =
  cat_description :: string
  components :: "(string \<times> component) list"

definition FEATURES :: "(string \<times> category) list" where
  "FEATURES =
    [(''core'',
      \<lparr>cat_description = ''Core services required for basic e-commerce functionality'',
       components =
        [(''gateway'', \<lparr>name = ''API Gateway'',
            description = ''Entry point for all client requests'', required = True\<rparr>),
         (''user'', \<lparr>name = ''User Service'',
            description = ''User authentication and profile management'', required = True\<rparr>),
         (''catalog'', \<lparr>name = ''Catalog Service'',
            description = ''Product catalog management'', required = True\<rparr>),
         (''cart'', \<lparr>name = ''Cart Service'',
            description = ''Shopping cart management'', required = True\<rparr>),
         (''orders'', \<lparr>name = ''Order Service'',
            description = ''Order processing and management'', required = True\<rparr>),
         (''payments'', \<lparr>name = ''Payment Service'',
            description = ''Payment processing'', required = True\<rparr>),
         (''inventory'', \<lparr>name = ''Inventory Service'',
            description = ''Stock management'', required = True\<rparr>)]\<rparr>),
     (''optional'',
      \<lparr>cat_description = ''Optional services to enhance e-commerce functionality'',
       components =
        [(''reviews'', \<lparr>name = ''Reviews Service'',
            description = ''Product reviews and ratings'', required = False\<rparr>),
         (''discounts'', \<lparr>name = ''Discounts Service'',
            description = ''Promotional offers and discount management'', required = False\<rparr>),
         (''admin'', \<lparr>name = ''Admin Dashboard Service'',
            description = ''Administrative interface backend'', required = False\<rparr>)]\<rparr>)]"

subsection \<open>The feature selector\<close>

text \<open>
  \<open>selected_features\<close> is a \<open>Dict[str, List[str]]\<close>. \<open>json.load\<close> and
  \<open>json.dump\<close> belong to Python's standard library, not to this program: they are
  parameters of the model. \<open>json_load\<close> returns \<open>None\<close> where the library raises
  \<open>JSONDecodeError\<close>; \<open>json_dump\<close> gives the text written for a selection.
\<close>

type_synonym selection = "string \<rightharpoonup> string list"

record FeatureSelector =
  config_file :: string
  selected_features :: selection

text \<open>The inner loop of \<open>_load_config\<close>, over the components of one category.\<close>

fun append_required ::
  "string \<Rightarrow> (string \<times> component) list \<Rightarrow> selection \<Rightarrow> py_error + selection" where
  "append_required cat [] cfg = Inr cfg"
| "append_required cat ((component_id, component) # rest) cfg =
     (if required component
      then (case cfg cat of
              None \<Rightarrow> Inl (KeyError cat)
            | Some xs \<Rightarrow> append_required cat rest (cfg(cat \<mapsto> xs @ [component_id])))
      else append_required cat rest cfg)"

text \<open>The outer loop of \<open>_load_config\<close>, over the categories of the catalog.\<close>

fun default_loop :: "(string \<times> category) list \<Rightarrow> selection \<Rightarrow> py_error + selection" where
  "default_loop [] cfg = Inr cfg"
| "default_loop ((cat, data) # rest) cfg =
     (case append_required cat (components data) cfg of
        Inl e \<Rightarrow> Inl e
      | Inr cfg' \<Rightarrow> default_loop rest cfg')"

definition default_config :: "py_error + selection" where
  "default_config = default_loop FEATURES [''core'' \<mapsto> [], ''optional'' \<mapsto> []]"

text \<open>\<open>FeatureSelector._load_config\<close>.\<close>

definition load_config :: "(string \<Rightarrow> selection option) \<Rightarrow> string \<Rightarrow> selection io" where
  "load_config json_load cfile = (\<lambda>w.
     if os_path_exists w cfile
     then io_bind (read_file cfile)
            (\<lambda>text. case json_load text of
                       None \<Rightarrow> io_raise JSONDecodeError
                     | Some sel \<Rightarrow> io_return sel) w
     else (case default_config of
             Inl e \<Rightarrow> io_raise e w
           | Inr sel \<Rightarrow> io_return sel w))"

text \<open>\<open>FeatureSelector.__init__\<close>.\<close>

definition FeatureSelector_init ::
  "(string \<Rightarrow> selection option) \<Rightarrow> string \<Rightarrow> FeatureSelector io" where
  "FeatureSelector_init json_load cfile =
     io_bind (load_config json_load cfile)
       (\<lambda>sel. io_return \<lparr>config_file = cfile, selected_features = sel\<rparr>)"

text \<open>\<open>FeatureSelector.save_config\<close>.\<close>

definition save_config :: "(selection \<Rightarrow> string) \<Rightarrow> FeatureSelector \<Rightarrow> unit io" where
  "save_config json_dump self =
     io_bind (open_w (config_file self))
       (\<lambda>_. io_bind (file_write (config_file self) (json_dump (selected_features self)))
          (\<lambda>_. print (''Configuration saved to '' @ config_file self)))"

definition quoted :: "string \<Rightarrow> string" where
  "quoted s = [CHR 0x27] @ s @ [CHR 0x27]"

definition not_found_message :: "string \<Rightarrow> string \<Rightarrow> string" where
  "not_found_message category feature_id =
     ''Error: Feature '' @ quoted feature_id @ '' in category '' @ quoted category @
     '' not found.''"

definition required_message :: "string \<Rightarrow> string" where
  "required_message feature_id =
     ''Error: Cannot disable required feature '' @ quoted feature_id @ ''.''"

text \<open>
  \<open>FeatureSelector.toggle_feature\<close>: the value returned and the selector as the call
  leaves it. An exception is raised before anything is changed.
\<close>

definition toggle_feature ::
  "FeatureSelector \<Rightarrow> string \<Rightarrow> string \<Rightarrow> (bool \<times> FeatureSelector) io" where
  "toggle_feature self category feature_id =
     (case map_of FEATURES category of
        None \<Rightarrow> io_bind (print (not_found_message category feature_id))
                  (\<lambda>_. io_return (False, self))
      | Some data \<Rightarrow>
         (case map_of (components data) feature_id of
            None \<Rightarrow> io_bind (print (not_found_message category feature_id))
                      (\<lambda>_. io_return (False, self))
          | Some component \<Rightarrow>
             if required component
             then io_bind (print (required_message feature_id))
                    (\<lambda>_. io_return (False, self))
             else (case selected_features self category of
                     None \<Rightarrow> io_raise (KeyError category)
                   | Some xs \<Rightarrow>
                      if feature_id \<in> set xs
                      then io_bind (print (''Disabled: '' @ feature_id))
                             (\<lambda>_. io_return (True,
                                self\<lparr>selected_features :=
                                  (selected_features self)(category \<mapsto> remove1 feature_id xs)\<rparr>))
                      else io_bind (print (''Enabled: '' @ feature_id))
                             (\<lambda>_. io_return (True,
                                self\<lparr>selected_features :=
                                  (selected_features self)(category \<mapsto> xs @ [feature_id])\<rparr>)))))"

subsection \<open>The inventory generator\<close>

text \<open>The text written to \<open>main.py\<close>, as the source has it.\<close>

definition main_py_content :: string where
\<open>main_py_content =
  ''"""\<newline>'' @
  ''Inventory Microservice - Auto-generated file\<newline>'' @
  ''Built with MicroShopGen\<newline>'' @
  ''"""\<newline>'' @
  ''\<newline>'' @
  ''from flask import Flask\<newline>'' @
  ''\<newline>'' @
  ''app = Flask(__name__)\<newline>'' @
  ''\<newline>'' @
  ''@app.route("/inventory")\<newline>'' @
  ''def inventory():\<newline>'' @
  ''    return {"message": "Inventory service running. Built with MicroShopGen"}\<newline>'' @
  ''\<newline>'' @
  ''@app.route("/inventory/product_ids")\<newline>'' @
  ''def get_product_ids():\<newline>'' @
  ''    #todo: Implement logic to fetch product IDs from the inventory database\<newline>'' @
  ''\<newline>'' @
  ''@app.route("/inventory/stock/<product_id>")\<newline>'' @
  ''def get_stock(product_id):\<newline>'' @
  ''    #todo: Implement logic to fetch stock for a given product ID\<newline>'' @
  ''\<newline>'' @
  ''@app.route("/inventory/stock/<product_id>", methods=["POST"])\<newline>'' @
  ''def update_stock(product_id):\<newline>'' @
  ''    #todo: Implement logic to update stock for a given product ID\<newline>'' @
  ''\<newline>'' @
  ''@app.route("/inventory/register", methods=["POST"])\<newline>'' @
  ''@def register_product():\<newline>'' @
  ''    #todo: Implement logic to register a new product in the inventory\<newline>'' @
  ''\<newline>'' @
  ''@app.route("/inventory/delete/<product_id>", methods=["DELETE"])\<newline>'' @
  ''@def delete_product(product_id):\<newline>'' @
  ''    #todo: Implement logic to delete a product from the inventory\<newline>'' @
  ''\<newline>'' @
  ''if __name__ == "__main__":\<newline>'' @
  ''    app.run(host="0.0.0.0", port=5007)\<newline>''\<close>

text \<open>
  The local variable of \<open>generate_dockerfile\<close> (the backslash at the end of the
  \<open>ENV\<close> line joins it with the next one).
\<close>

definition dockerfile_content :: string where
\<open>dockerfile_content =
  ''FROM python:3.9-slim\<newline>'' @
  ''\<newline>'' @
  ''WORKDIR /app\<newline>'' @
  ''\<newline>'' @
  ''EXPOSE 5007\<newline>'' @
  ''\<newline>'' @
  ''ENV FLASK_APP=main.py     PYTHONUNBUFFERED=1\<newline>'' @
  ''PYTHONPATH=/app\<newline>'' @
  ''PIP_NO_CACHE_DIR=1\<newline>'' @
  ''\<newline>'' @
  ''RUN pip install flask\<newline>'' @
  ''\<newline>'' @
  ''COPY . .\<newline>'' @
  ''\<newline>'' @
  ''CMD ["flask", "run", "--host=0.0.0", "--port=5007"]\<newline>''\<close>

text \<open>\<open>InventoryServiceGenerator.generate_main\<close>.\<close>

definition generate_main :: "string \<Rightarrow> unit io" where
  "generate_main output_dir =
     (let service_dir = os_path_join output_dir ''inventory'' in
      io_bind (os_makedirs service_dir)
        (\<lambda>_. io_bind (open_w (os_path_join service_dir ''main.py''))
          (\<lambda>_. io_bind (file_write (os_path_join service_dir ''main.py'') main_py_content)
            (\<lambda>_. print (''Inventory service generated at: '' @ service_dir)))))"

text \<open>
  \<open>InventoryServiceGenerator.generate_dockerfile\<close>: the body binds the text to a local
  variable and ends there.
\<close>

definition generate_dockerfile :: "string \<Rightarrow> unit io" where
  "generate_dockerfile output_dir = (let content = dockerfile_content in io_return ())"

text \<open>\<open>InventoryServiceGenerator.generate\<close>.\<close>

definition InventoryServiceGenerator_generate :: "string \<Rightarrow> unit io" where
  "InventoryServiceGenerator_generate output_dir =
     io_bind (generate_main output_dir) (\<lambda>_. generate_dockerfile output_dir)"

subsection \<open>The generator dispatcher\<close>

text \<open>
  The subclasses of \<open>MicroserviceGenerator\<close>; \<open>generate\<close> is the abstract method,
  dispatched on the class.
\<close>

datatype generator = InventoryServiceGenerator

fun generate :: "generator \<Rightarrow> string \<Rightarrow> unit io" where
  "generate InventoryServiceGenerator output_dir = InventoryServiceGenerator_generate output_dir"

definition generators :: "string \<rightharpoonup> generator" where
  "generators = [''inventory'' \<mapsto> InventoryServiceGenerator]"

text \<open>The \<open>for\<close> loop of \<open>generate_microservices\<close>.\<close>

fun generate_loop :: "string list \<Rightarrow> string \<Rightarrow> unit io" where
  "generate_loop [] output_dir = io_return ()"
| "generate_loop (feature # rest) output_dir =
     (case generators feature of
        Some g \<Rightarrow> io_bind (generate g output_dir) (\<lambda>_. generate_loop rest output_dir)
      | None \<Rightarrow> generate_loop rest output_dir)"

text \<open>
  \<open>generate_microservices\<close> after the selector is built: the two lists are read and
  concatenated, then the loop runs.
\<close>

definition generate_selected :: "selection \<Rightarrow> string \<Rightarrow> unit io" where
  "generate_selected sel output_dir =
     (case sel ''core'' of
        None \<Rightarrow> io_raise (KeyError ''core'')
      | Some core \<Rightarrow>
         (case sel ''optional'' of
            None \<Rightarrow> io_raise (KeyError ''optional'')
          | Some optional \<Rightarrow> generate_loop (core @ optional) output_dir))"

definition generate_microservices ::
  "(string \<Rightarrow> selection option) \<Rightarrow> string \<Rightarrow> string \<Rightarrow> unit io" where
  "generate_microservices json_load cfile output_dir =
     io_bind (FeatureSelector_init json_load cfile)
       (\<lambda>selector. generate_selected (selected_features selector) output_dir)"

subsection \<open>The json module\<close>

text \<open>
  \<open>json.dump\<close> and \<open>json.load\<close> of Python's standard library, written from the
  library's documented behaviour for the values the program stores: a dict from strings
  to lists of strings.
\<close>

text \<open>
  The tokens of the texts that denote an object whose values are arrays of strings.
\<close>

datatype token = LBrace | RBrace | LBracket | RBracket | Colon | Comma | Str string

text \<open>
  The hexadecimal digits of the escape made of a backslash, \<open>u\<close> and four digits:
  written in lower case (\<open>0\<close> to \<open>9\<close>, \<open>a\<close> to \<open>f\<close>), read in either case.
\<close>

definition hex_digit :: "nat \<Rightarrow> char" where
  "hex_digit n = (if n < 10 then char_of (48 + n) else char_of (87 + n))"

definition hex_val :: "char \<Rightarrow> nat option" where
  "hex_val c =
     (let n = (of_char c :: nat) in
      if 48 \<le> n \<and> n \<le> 57 then Some (n - 48)
      else if 97 \<le> n \<and> n \<le> 102 then Some (n - 87)
      else if 65 \<le> n \<and> n \<le> 70 then Some (n - 55)
      else None)"

text \<open>
  The encoder's escapes (\<open>ensure_ascii\<close>, the default): the quote, the backslash and
  the control characters that have a short escape; the printable ASCII characters stand
  for themselves; every other character is written as a backslash, \<open>u00\<close> and its two
  hexadecimal digits. A character of the model is a code point below 256.
\<close>

definition escape_char :: "char \<Rightarrow> string" where
  "escape_char c =
     (if c = CHR 0x22 then [CHR 0x5C, CHR 0x22]
      else if c = CHR 0x5C then [CHR 0x5C, CHR 0x5C]
      else if c = CHR 0x0A then [CHR 0x5C, CHR ''n'']
      else if c = CHR 0x0D then [CHR 0x5C, CHR ''r'']
      else if c = CHR 0x09 then [CHR 0x5C, CHR ''t'']
      else if c = CHR 0x08 then [CHR 0x5C, CHR ''b'']
      else if c = CHR 0x0C then [CHR 0x5C, CHR ''f'']
      else if 32 \<le> (of_char c :: nat) \<and> (of_char c :: nat) \<le> 126 then [c]
      else [CHR 0x5C, CHR ''u'', CHR ''0'', CHR ''0'',
            hex_digit (of_char c div 16), hex_digit (of_char c mod 16)])"

text \<open>
  The decoder's short escapes.
\<close>

definition unescape_char :: "char \<Rightarrow> char option" where
  "unescape_char e =
     (if e = CHR 0x22 then Some (CHR 0x22)
      else if e = CHR 0x5C then Some (CHR 0x5C)
      else if e = CHR ''/'' then Some (CHR ''/'')
      else if e = CHR ''n'' then Some (CHR 0x0A)
      else if e = CHR ''r'' then Some (CHR 0x0D)
      else if e = CHR ''t'' then Some (CHR 0x09)
      else if e = CHR ''b'' then Some (CHR 0x08)
      else if e = CHR ''f'' then Some (CHR 0x0C)
      else None)"

text \<open>
  The scanner, one character at a time: between tokens, inside a string, after a
  backslash, and inside the four digits that follow a backslash and \<open>u\<close>. A control
  character inside a string is an error, as in the decoder's strict mode.
\<close>

datatype lex_mode = Plain | InStr string | Esc string | Uni string "nat list"

fun json_lex :: "lex_mode \<Rightarrow> string \<Rightarrow> token list option" where
  "json_lex Plain [] = Some []"
| "json_lex Plain (c # cs) =
     (if c = CHR '' '' \<or> c = CHR 0x0A \<or> c = CHR 0x0D \<or> c = CHR 0x09 then json_lex Plain cs
      else if c = CHR ''{'' then map_option ((#) LBrace) (json_lex Plain cs)
      else if c = CHR ''}'' then map_option ((#) RBrace) (json_lex Plain cs)
      else if c = CHR ''['' then map_option ((#) LBracket) (json_lex Plain cs)
      else if c = CHR '']'' then map_option ((#) RBracket) (json_lex Plain cs)
      else if c = CHR '':'' then map_option ((#) Colon) (json_lex Plain cs)
      else if c = CHR '','' then map_option ((#) Comma) (json_lex Plain cs)
      else if c = CHR 0x22 then json_lex (InStr []) cs
      else None)"
| "json_lex (InStr acc) [] = None"
| "json_lex (InStr acc) (c # cs) =
     (if c = CHR 0x22 then map_option ((#) (Str acc)) (json_lex Plain cs)
      else if c = CHR 0x5C then json_lex (Esc acc) cs
      else if (of_char c :: nat) < 32 then None
      else json_lex (InStr (acc @ [c])) cs)"
| "json_lex (Esc acc) [] = None"
| "json_lex (Esc acc) (c # cs) =
     (if c = CHR ''u'' then json_lex (Uni acc []) cs
      else (case unescape_char c of
              None \<Rightarrow> None
            | Some d \<Rightarrow> json_lex (InStr (acc @ [d])) cs))"
| "json_lex (Uni acc ds) [] = None"
| "json_lex (Uni acc ds) (c # cs) =
     (case hex_val c of
        None \<Rightarrow> None
      | Some v \<Rightarrow>
         if length ds < 3 then json_lex (Uni acc (ds @ [v])) cs
         else (let n = foldl (\<lambda>a d. 16 * a + d) 0 (ds @ [v]) in
               if n < 256 then json_lex (InStr (acc @ [char_of n])) cs else None))"

text \<open>
  \<open>json.dump(obj, f, indent=2)\<close> on the items of a dict in their order: each level is
  indented by two more spaces, the items are separated by a comma and a newline, a key
  from its value by a colon and a space, and an empty list or dict is written \<open>[]\<close> or
  \<open>{}\<close>.
\<close>

definition encode_string :: "string \<Rightarrow> string" where
  "encode_string s = [CHR 0x22] @ concat (map escape_char s) @ [CHR 0x22]"

fun dump_more_elems :: "string list \<Rightarrow> string" where
  "dump_more_elems [] = ''\<newline>  ]''"
| "dump_more_elems (y # ys) = '',\<newline>    '' @ encode_string y @ dump_more_elems ys"

fun dump_array :: "string list \<Rightarrow> string" where
  "dump_array [] = ''[]''"
| "dump_array (x # xs) = ''[\<newline>    '' @ encode_string x @ dump_more_elems xs"

definition dump_member :: "string \<times> string list \<Rightarrow> string" where
  "dump_member m = encode_string (fst m) @ '': '' @ dump_array (snd m)"

fun dump_more_members :: "(string \<times> string list) list \<Rightarrow> string" where
  "dump_more_members [] = ''\<newline>}''"
| "dump_more_members (m # ms) = '',\<newline>  '' @ dump_member m @ dump_more_members ms"

fun json_dumps :: "(string \<times> string list) list \<Rightarrow> string" where
  "json_dumps [] = ''{}''"
| "json_dumps (m # ms) = ''{\<newline>  '' @ dump_member m @ dump_more_members ms"

text \<open>
  The parser of the token list, one token at a time, for an object whose values are
  arrays of strings; the items are collected in their order.
\<close>

datatype parse_state =
    Start | ObjOpen | Key string | KeyColon string | ArrOpen string
  | ArrElem string "string list" | ArrComma string "string list"
  | Member | MemberComma | Finished

fun json_parse ::
  "parse_state \<Rightarrow> (string \<times> string list) list \<Rightarrow> token list \<Rightarrow>
     (string \<times> string list) list option" where
  "json_parse st acc [] = (case st of Finished \<Rightarrow> Some acc | _ \<Rightarrow> None)"
| "json_parse st acc (t # ts) =
     (case st of
        Start \<Rightarrow> (case t of LBrace \<Rightarrow> json_parse ObjOpen acc ts | _ \<Rightarrow> None)
      | ObjOpen \<Rightarrow>
         (case t of
            RBrace \<Rightarrow> json_parse Finished acc ts
          | Str k \<Rightarrow> json_parse (Key k) acc ts
          | _ \<Rightarrow> None)
      | Key k \<Rightarrow> (case t of Colon \<Rightarrow> json_parse (KeyColon k) acc ts | _ \<Rightarrow> None)
      | KeyColon k \<Rightarrow> (case t of LBracket \<Rightarrow> json_parse (ArrOpen k) acc ts | _ \<Rightarrow> None)
      | ArrOpen k \<Rightarrow>
         (case t of
            RBracket \<Rightarrow> json_parse Member (acc @ [(k, [])]) ts
          | Str s \<Rightarrow> json_parse (ArrElem k [s]) acc ts
          | _ \<Rightarrow> None)
      | ArrElem k xs \<Rightarrow>
         (case t of
            Comma \<Rightarrow> json_parse (ArrComma k xs) acc ts
          | RBracket \<Rightarrow> json_parse Member (acc @ [(k, xs)]) ts
          | _ \<Rightarrow> None)
      | ArrComma k xs \<Rightarrow>
         (case t of Str s \<Rightarrow> json_parse (ArrElem k (xs @ [s])) acc ts | _ \<Rightarrow> None)
      | Member \<Rightarrow>
         (case t of
            Comma \<Rightarrow> json_parse MemberComma acc ts
          | RBrace \<Rightarrow> json_parse Finished acc ts
          | _ \<Rightarrow> None)
      | MemberComma \<Rightarrow> (case t of Str k \<Rightarrow> json_parse (Key k) acc ts | _ \<Rightarrow> None)
      | Finished \<Rightarrow> None)"

text \<open>
  The dict of a list of items: a later item replaces an earlier one with the same key.
\<close>

definition dict_of :: "(string \<times> string list) list \<Rightarrow> selection" where
  "dict_of items = fold (\<lambda>(k, xs) m. m(k \<mapsto> xs)) items Map.empty"

text \<open>
  \<open>json.load\<close> for a selection: \<open>None\<close> where the text is malformed (the library raises
  \<open>JSONDecodeError\<close>) or denotes a value that is not a \<open>Dict[str, List[str]]\<close>.
\<close>

definition json_loads :: "string \<Rightarrow> selection option" where
  "json_loads text =
     (case json_lex Plain text of
        None \<Rightarrow> None
      | Some ts \<Rightarrow> map_option dict_of (json_parse Start [] ts))"

text \<open>
  The items of a dict whose keys are enumerated in the order \<open>ks\<close>.
\<close>

definition dict_items ::
  "string list \<Rightarrow> selection \<Rightarrow> (string \<times> string list) list" where
  "dict_items ks sel = List.map_filter (\<lambda>k. map_option (Pair k) (sel k)) ks"

definition json_dump_in_order :: "string list \<Rightarrow> selection \<Rightarrow> string" where
  "json_dump_in_order ks sel = json_dumps (dict_items ks sel)"

text \<open>The token lists of the texts that \<open>json_dumps\<close> writes.\<close>

fun more_elem_tokens :: "string list \<Rightarrow> token list" where
  "more_elem_tokens [] = [RBracket]"
| "more_elem_tokens (y # ys) = Comma # Str y # more_elem_tokens ys"

fun array_tokens :: "string list \<Rightarrow> token list" where
  "array_tokens [] = [LBracket, RBracket]"
| "array_tokens (x # xs) = LBracket # Str x # more_elem_tokens xs"

definition member_tokens :: "string \<times> string list \<Rightarrow> token list" where
  "member_tokens m = Str (fst m) # Colon # array_tokens (snd m)"

fun more_member_tokens :: "(string \<times> string list) list \<Rightarrow> token list" where
  "more_member_tokens [] = [RBrace]"
| "more_member_tokens (m # ms) = Comma # member_tokens m @ more_member_tokens ms"

fun object_tokens :: "(string \<times> string list) list \<Rightarrow> token list" where
  "object_tokens [] = [LBrace, RBrace]"
| "object_tokens (m # ms) = LBrace # member_tokens m @ more_member_tokens ms"

subsection \<open>Notions used to state the properties\<close>

text \<open>
  The catalog's lookup, \<open>FEATURES[category]["components"][component_id]\<close>, with
  \<open>None\<close> when either key is missing.
\<close>

definition lookup :: "string \<Rightarrow> string \<Rightarrow> component option" where
  "lookup category component_id =
     (case map_of FEATURES category of
        None \<Rightarrow> None
      | Some data \<Rightarrow> map_of (components data) component_id)"

text \<open>
  The dispatcher as the specification words it: the identifiers that have an entry in
  the registry, each replaced by its generation unit, and the units invoked one after the
  other with the output directory.
\<close>

definition registered :: "string list \<Rightarrow> generator list" where
  "registered ids = List.map_filter generators ids"

fun invoke_units :: "generator list \<Rightarrow> string \<Rightarrow> unit io" where
  "invoke_units [] output_dir = io_return ()"
| "invoke_units (g # gs) output_dir =
     io_bind (generate g output_dir) (\<lambda>_. invoke_units gs output_dir)"

text \<open>Configuration texts and states of the examples.\<close>

definition empty_object_text :: string where
  "empty_object_text = ''{}''"

definition core_only_text :: string where
\<open>core_only_text = ''{"core": []}''\<close>

definition two_keys_text :: string where
\<open>two_keys_text = ''{\<newline>  "core": [],\<newline>  "optional": []\<newline>}''\<close>

definition default_config_text :: string where
\<open>default_config_text =
  ''{\<newline>'' @
  ''  "core": [\<newline>'' @
  ''    "gateway",\<newline>'' @
  ''    "user",\<newline>'' @
  ''    "catalog",\<newline>'' @
  ''    "cart",\<newline>'' @
  ''    "orders",\<newline>'' @
  ''    "payments",\<newline>'' @
  ''    "inventory"\<newline>'' @
  ''  ],\<newline>'' @
  ''  "optional": []\<newline>'' @
  ''}''\<close>

definition inventory_only_text :: string where
\<open>inventory_only_text = ''{"core": ["inventory"]}''\<close>

definition fresh_os :: os_state where
  "fresh_os = \<lparr>dirs = {}, files = Map.empty, free_space = 100000, stdout = []\<rparr>"

definition default_selection :: selection where
  "default_selection =
     [''optional'' \<mapsto> [],
      ''core'' \<mapsto> [''gateway'', ''user'', ''catalog'', ''cart'', ''orders'', ''payments'',
                  ''inventory'']]"

definition default_selector :: FeatureSelector where
  "default_selector =
     \<lparr>config_file = ''ecommerce_config.json'', selected_features = default_selection\<rparr>"

definition selector_with_optional :: "string list \<Rightarrow> FeatureSelector" where
  "selector_with_optional xs =
     \<lparr>config_file = ''ecommerce_config.json'',
      selected_features =
        [''core'' \<mapsto> [''gateway'', ''user'', ''catalog'', ''cart'', ''orders'', ''payments'',
                     ''inventory''],
         ''optional'' \<mapsto> xs]\<rparr>"

definition two_keys_selector :: FeatureSelector where
  "two_keys_selector =
     \<lparr>config_file = ''ecommerce_config.json'',
      selected_features = [''core'' \<mapsto> [], ''optional'' \<mapsto> []]\<rparr>"

text \<open>
  A stand-in for \<open>json.load\<close> in the examples, which agrees with the library on the
  texts the examples use: \<open>{}\<close> and \<open>{"core": []}\<close> are read as the dicts they denote;
  \<open>example_load\<close> knows no other text and rejects the rest, among them the malformed
  text \<open>{\<close>.
\<close>

definition example_load :: "string \<Rightarrow> selection option" where
  "example_load text =
     (if text = empty_object_text then Some Map.empty
      else if text = core_only_text then Some [''core'' \<mapsto> []]
      else None)"

definition os_with_config :: "string \<Rightarrow> nat \<Rightarrow> os_state" where
  "os_with_config text n =
     \<lparr>dirs = {}, files = [[''ecommerce_config.json''] \<mapsto> text], free_space = n, stdout = []\<rparr>"

section \<open>Properties\<close>

subsection \<open>Auxiliary facts\<close>

lemmas io_defs = io_bind_def io_return_def io_raise_def print_def

lemma default_config_value: "default_config = Inr default_selection"
  by (simp add: default_config_def default_selection_def FEATURES_def)

lemma main_py_length: "length main_py_content = 1058"
  by (simp add: main_py_content_def)

lemma load_config_absent_value:
  "\<not> os_path_exists w cfile \<Longrightarrow> load_config json_load cfile w = (Inr default_selection, w)"
  by (simp add: load_config_def default_config_value io_defs)

lemma load_config_present:
  assumes "cfile \<noteq> []" "\<not> is_dir w (resolve cfile)" "files w (resolve cfile) = Some text"
  shows "load_config json_load cfile w =
     (case json_load text of None \<Rightarrow> (Inl JSONDecodeError, w) | Some sel \<Rightarrow> (Inr sel, w))"
proof -
  have "os_path_exists w cfile"
    using assms by (simp add: os_path_exists_def is_file_def)
  moreover have "read_file cfile w = (Inr text, w)"
    using assms by (simp add: read_file_def)
  ultimately show ?thesis
    by (simp add: load_config_def io_defs split: option.splits)
qed

lemma toggle_feature_flip:
  assumes "lookup category feature_id = Some c" "\<not> required c"
    "selected_features self category = Some xs"
  shows "toggle_feature self category feature_id w =
     (Inr (True, self\<lparr>selected_features := (selected_features self)(category \<mapsto>
               (if feature_id \<in> set xs then remove1 feature_id xs else xs @ [feature_id]))\<rparr>),
      w\<lparr>stdout := stdout w @
               [(if feature_id \<in> set xs then ''Disabled: '' else ''Enabled: '') @ feature_id]\<rparr>)"
  using assms by (auto simp: lookup_def toggle_feature_def io_defs split: option.splits)

lemma toggle_feature_True:
  assumes "toggle_feature self category feature_id w = (Inr (True, s'), w')"
  shows "\<exists>c xs. lookup category feature_id = Some c \<and> \<not> required c \<and>
           selected_features self category = Some xs"
  using assms
  by (auto simp: lookup_def toggle_feature_def io_defs split: option.splits if_splits)

lemma remove1_append_absent: "x \<notin> set xs \<Longrightarrow> remove1 x (xs @ [x]) = xs"
  by (induction xs) auto

lemma set_remove1_insert: "x \<in> set xs \<Longrightarrow> insert x (set (remove1 x xs)) = set xs"
  by (induction xs) auto

lemma count_le1_remove1: "count_list xs x \<le> 1 \<Longrightarrow> x \<notin> set (remove1 x xs)"
  by (induction xs) (auto split: if_splits simp: count_list_0_iff)

lemma distinct_count_le1: "distinct xs \<Longrightarrow> count_list xs x \<le> 1"
  by (induction xs) (auto simp: count_list_0_iff)

text \<open>
  The lists of the default selection have no duplicates, and a toggle keeps it so: every
  state reached from the default by toggles holds each identifier at most once.
\<close>

lemma default_selection_distinct:
  "default_selection category = Some xs \<Longrightarrow> distinct xs"
  by (auto simp: default_selection_def split: if_splits)

lemma toggle_feature_keeps_distinct:
  assumes "toggle_feature self category feature_id w = (Inr (r, s'), w')"
    and "\<And>cat xs. selected_features self cat = Some xs \<Longrightarrow> distinct xs"
    and "selected_features s' cat = Some ys"
  shows "distinct ys"
  using assms
  by (auto simp: toggle_feature_def io_defs split: option.splits if_splits)

lemma generate_loop_invokes:
  "generate_loop features output_dir = invoke_units (registered features) output_dir"
  by (induction features)
     (auto simp: registered_def List.map_filter_simps split: option.splits)

lemma registered_none:
  "(\<forall>f \<in> set features. generators f = None) \<Longrightarrow> registered features = []"
  by (induction features) (auto simp: registered_def List.map_filter_simps)

lemma registered_filter:
  "registered (filter (\<lambda>f. generators f \<noteq> None) features) = registered features"
  by (induction features) (auto simp: registered_def List.map_filter_simps)

text \<open>
  Whatever the output directory and the state of the file system, the inventory generator
  changes no file but \<open>inventory/main.py\<close>.
\<close>

lemma inventory_generate_other_files:
  assumes "q \<noteq> resolve (os_path_join (os_path_join output_dir ''inventory'') ''main.py'')"
  shows "files (snd (InventoryServiceGenerator_generate output_dir w)) q = files w q"
  using assms
  by (simp add: InventoryServiceGenerator_generate_def generate_main_def
        generate_dockerfile_def Let_def io_defs os_makedirs_def open_w_def file_write_def)

lemma default_selection_required:
  "\<forall>(cat, data) \<in> set FEATURES.
     \<exists>xs. default_selection cat = Some xs \<and>
       xs = map fst (filter (\<lambda>(cid, c). required c) (components data))"
  by (simp add: FEATURES_def default_selection_def)

lemma required_ids_set:
  "set (map fst (filter (\<lambda>(cid, c). required c) comps)) =
     {cid. \<exists>c. (cid, c) \<in> set comps \<and> required c}"
  by (induction comps) auto

lemma default_selection_dom: "dom default_selection = fst ` set FEATURES"
  by (auto simp: FEATURES_def default_selection_def)

lemma inventory_generate_fresh:
  "InventoryServiceGenerator_generate ''generated'' fresh_os =
   (Inr (),
    \<lparr>dirs = {[''generated''], [''generated'', ''inventory'']},
     files = [[''generated'', ''inventory'', ''main.py''] \<mapsto> main_py_content],
     free_space = 98942,
     stdout = [''Inventory service generated at: generated/inventory'']\<rparr>)"
  by (simp add: InventoryServiceGenerator_generate_def generate_main_def
        generate_dockerfile_def Let_def io_defs os_makedirs_def open_w_def file_write_def
        main_py_length os_path_join_def resolve_def is_file_def is_dir_def fresh_os_def)

lemma fresh_os_no_config: "\<not> os_path_exists fresh_os ''ecommerce_config.json''"
  by (simp add: os_path_exists_def is_dir_def is_file_def resolve_def fresh_os_def)

lemma toggle_optional_reviews:
  "toggle_feature (selector_with_optional xs) ''optional'' ''reviews'' w =
     (Inr (True, selector_with_optional
               (if ''reviews'' \<in> set xs then remove1 ''reviews'' xs else xs @ [''reviews''])),
      w\<lparr>stdout := stdout w @
         [(if ''reviews'' \<in> set xs then ''Disabled: '' else ''Enabled: '') @ ''reviews'']\<rparr>)"
  by (simp add: toggle_feature_def FEATURES_def io_defs selector_with_optional_def)

lemma resolve_config: "resolve ''ecommerce_config.json'' = [''ecommerce_config.json'']"
  by (simp add: resolve_def)

lemma os_with_config_file:
  "\<not> is_dir (os_with_config text n) (resolve ''ecommerce_config.json'') \<and>
   is_dir (os_with_config text n) (butlast (resolve ''ecommerce_config.json'')) \<and>
   files (os_with_config text n) (resolve ''ecommerce_config.json'') = Some text"
  by (simp add: os_with_config_def resolve_config is_dir_def)

lemma two_keys_length: "length two_keys_text = 34"
  by (simp add: two_keys_text_def)

lemma save_config_success:
  assumes "save_config json_dump self w = (Inr (), w')"
  shows "config_file self \<noteq> [] \<and> \<not> is_dir w (resolve (config_file self)) \<and>
         length (json_dump (selected_features self)) \<le> free_space w \<and>
         w' = w\<lparr>files := (files w)(resolve (config_file self) \<mapsto> json_dump (selected_features self)),
                free_space := free_space w - length (json_dump (selected_features self)),
                stdout := stdout w @ [''Configuration saved to '' @ config_file self]\<rparr>"
  using assms
  by (auto simp: save_config_def open_w_def file_write_def io_defs Let_def
           split: if_splits prod.splits sum.splits)

lemma save_config_run:
  assumes "config_file self \<noteq> []" "\<not> is_dir w (resolve (config_file self))"
    "is_dir w (butlast (resolve (config_file self)))"
  shows "save_config json_dump self w =
     (if length (json_dump (selected_features self)) \<le> free_space w
      then (Inr (),
        w\<lparr>files := (files w)(resolve (config_file self) \<mapsto> json_dump (selected_features self)),
          free_space := free_space w - length (json_dump (selected_features self)),
          stdout := stdout w @ [''Configuration saved to '' @ config_file self]\<rparr>)
      else (Inl (OSError_ENOSPC (config_file self)),
        w\<lparr>files := (files w)(resolve (config_file self) \<mapsto>
                      take (free_space w) (json_dump (selected_features self))),
          free_space := 0\<rparr>))"
  using assms
  by (simp add: save_config_def open_w_def file_write_def io_defs Let_def is_file_def)

lemma hex_val_digit: "a < 16 \<Longrightarrow> hex_val (hex_digit a) = Some a"
proof -
  assume "a < 16"
  then have "a \<in> {0,1,2,3,4,5,6,7,8,9,10,11,12,13,14,15}" by simp arith
  then show ?thesis
    by (auto simp: hex_val_def hex_digit_def)
qed

lemma of_char_less_256: "(of_char c :: nat) < 256"
proof -
  have "(of_char c :: nat) mod 256 = of_char c" by (rule of_char_mod_256)
  then show ?thesis by (metis mod_less_divisor zero_less_numeral)
qed

lemma hex_val_zero: "hex_val (CHR ''0'') = Some 0"
  by (simp add: hex_val_def)

lemma json_lex_unicode:
  assumes "hex_val h1 = Some a" "hex_val h2 = Some b" "16 * a + b < 256"
  shows "json_lex (InStr acc) (CHR 0x5C # CHR ''u'' # CHR ''0'' # CHR ''0'' # h1 # h2 # rest) =
         json_lex (InStr (acc @ [char_of (16 * a + b)])) rest"
  using assms by (simp add: hex_val_zero)

lemma json_lex_escape_char:
  "json_lex (InStr acc) (escape_char c @ rest) = json_lex (InStr (acc @ [c])) rest"
proof (cases "escape_char c = [CHR 0x5C, CHR ''u'', CHR ''0'', CHR ''0'',
            hex_digit (of_char c div 16), hex_digit (of_char c mod 16)]")
  case True
  have d: "(of_char c :: nat) div 16 < 16" using of_char_less_256 [of c] by arith
  have m: "(of_char c :: nat) mod 16 < 16" by simp
  have v: "16 * ((of_char c :: nat) div 16) + of_char c mod 16 = of_char c" by simp
  have "json_lex (InStr acc) (escape_char c @ rest) =
      json_lex (InStr (acc @ [char_of (16 * ((of_char c :: nat) div 16) + of_char c mod 16)])) rest"
    unfolding True
    using json_lex_unicode [OF hex_val_digit [OF d] hex_val_digit [OF m], of acc rest]
      of_char_less_256 [of c]
    by (simp only: v append_Cons append_Nil)
  then show ?thesis by (simp only: v char_of_char)
next
  case False
  then show ?thesis
    by (auto simp: escape_char_def unescape_char_def split: if_splits)
qed

lemma json_lex_string_body:
  "json_lex (InStr acc) (concat (map escape_char s) @ CHR 0x22 # rest) =
     map_option ((#) (Str (acc @ s))) (json_lex Plain rest)"
  by (induction s arbitrary: acc) (simp_all add: json_lex_escape_char)

lemma json_lex_encode_string:
  "json_lex Plain (encode_string s @ rest) = map_option ((#) (Str s)) (json_lex Plain rest)"
  using json_lex_string_body [of "[]" s rest] by (simp add: encode_string_def)

lemma json_lex_more_elems:
  "json_lex Plain (dump_more_elems ys @ rest) =
     map_option ((@) (more_elem_tokens ys)) (json_lex Plain rest)"
  by (induction ys; cases "json_lex Plain rest") (simp_all add: json_lex_encode_string)

lemma json_lex_array:
  "json_lex Plain (dump_array xs @ rest) =
     map_option ((@) (array_tokens xs)) (json_lex Plain rest)"
  by (cases xs; cases "json_lex Plain rest")
     (simp_all add: json_lex_encode_string json_lex_more_elems)

lemma json_lex_member:
  "json_lex Plain (dump_member m @ rest) =
     map_option ((@) (member_tokens m)) (json_lex Plain rest)"
  by (cases "json_lex Plain rest")
     (simp_all add: dump_member_def member_tokens_def json_lex_encode_string json_lex_array)

lemma json_lex_more_members:
  "json_lex Plain (dump_more_members ms @ rest) =
     map_option ((@) (more_member_tokens ms)) (json_lex Plain rest)"
  by (induction ms; cases "json_lex Plain rest") (simp_all add: json_lex_member)

lemma json_lex_dumps: "json_lex Plain (json_dumps items) = Some (object_tokens items)"
proof (cases items)
  case Nil
  then show ?thesis by simp
next
  case (Cons m ms)
  have "json_lex Plain (dump_member m @ dump_more_members ms @ []) =
      Some (member_tokens m @ more_member_tokens ms @ [])"
    by (simp only: json_lex_member json_lex_more_members json_lex.simps option.map)
  with Cons show ?thesis by simp
qed

lemma json_parse_more_elems:
  "json_parse (ArrElem k xs) acc (more_elem_tokens ys @ ts) =
     json_parse Member (acc @ [(k, xs @ ys)]) ts"
  by (induction ys arbitrary: xs) simp_all

lemma json_parse_array:
  "json_parse (KeyColon k) acc (array_tokens xs @ ts) = json_parse Member (acc @ [(k, xs)]) ts"
  using json_parse_more_elems [of k "[hd xs]" acc "tl xs" ts]
  by (cases xs) simp_all

lemma json_parse_member:
  "json_parse (Key (fst m)) acc (Colon # array_tokens (snd m) @ ts) =
     json_parse Member (acc @ [m]) ts"
  by (simp add: json_parse_array)

lemma json_parse_more_members:
  "json_parse Member acc (more_member_tokens ms) = Some (acc @ ms)"
  by (induction ms arbitrary: acc) (simp_all add: member_tokens_def json_parse_array)

lemma json_parse_object: "json_parse Start [] (object_tokens items) = Some items"
proof (cases items)
  case Nil
  then show ?thesis by simp
next
  case (Cons m ms)
  have "json_parse (Key (fst m)) [] (Colon # array_tokens (snd m) @ more_member_tokens ms) =
      Some (m # ms)"
    by (simp only: json_parse_member json_parse_more_members append_Nil append_Cons)
  with Cons show ?thesis by (simp add: member_tokens_def)
qed

lemma dict_of_snoc: "dict_of (items @ [(k, xs)]) = (dict_of items)(k \<mapsto> xs)"
  by (simp add: dict_of_def)

lemma dict_of_items:
  "dict_of (dict_items ks sel) k = (if k \<in> set ks then sel k else None)"
proof (induction ks rule: rev_induct)
  case Nil
  then show ?case by (simp add: dict_items_def dict_of_def List.map_filter_simps)
next
  case (snoc x ks)
  have split: "dict_items (ks @ [x]) sel =
      dict_items ks sel @ (case sel x of None \<Rightarrow> [] | Some v \<Rightarrow> [(x, v)])"
    by (simp add: dict_items_def List.map_filter_def split: option.splits)
  show ?case
  proof (cases "sel x")
    case None
    with snoc split show ?thesis by auto
  next
    case (Some v)
    with snoc split show ?thesis by (auto simp: dict_of_snoc)
  qed
qed

lemma json_roundtrip:
  assumes "set ks = dom sel"
  shows "json_loads (json_dumps (dict_items ks sel)) = Some sel"
proof -
  have "dict_of (dict_items ks sel) = sel"
  proof
    fix k
    show "dict_of (dict_items ks sel) k = sel k"
      using assms by (cases "sel k") (auto simp: dict_of_items)
  qed
  then show ?thesis
    by (simp add: json_loads_def json_lex_dumps json_parse_object)
qed

lemma save_then_load_codec:
  assumes saved: "save_config json_dump self w = (Inr (), w')"
    and codec: "json_load (json_dump (selected_features self)) = Some (selected_features self)"
  shows "load_config json_load (config_file self) w' = (Inr (selected_features self), w') \<and>
         FeatureSelector_init json_load (config_file self) w' = (Inr self, w')"
proof -
  from save_config_success [OF saved] have
    p: "config_file self \<noteq> []" and nd: "\<not> is_dir w (resolve (config_file self))" and
    w': "w' = w\<lparr>files := (files w)(resolve (config_file self) \<mapsto> json_dump (selected_features self)),
                free_space := free_space w - length (json_dump (selected_features self)),
                stdout := stdout w @ [''Configuration saved to '' @ config_file self]\<rparr>"
    by auto
  have nd': "\<not> is_dir w' (resolve (config_file self))"
    using nd by (simp add: w' is_dir_def)
  have f: "files w' (resolve (config_file self)) = Some (json_dump (selected_features self))"
    by (simp add: w')
  have l: "load_config json_load (config_file self) w' = (Inr (selected_features self), w')"
    using load_config_present [OF p nd' f, of json_load] codec by simp
  then show ?thesis by (simp add: FeatureSelector_init_def io_defs)
qed

lemma default_config_text_dump:
  "json_dump_in_order [''core'', ''optional''] default_selection = default_config_text"
  by (simp add: json_dump_in_order_def dict_items_def List.map_filter_simps
        default_selection_def dump_member_def encode_string_def escape_char_def
        default_config_text_def)

lemma two_keys_text_dump:
  "json_dump_in_order [''core'', ''optional''] (selected_features two_keys_selector) =
     two_keys_text"
  by (simp add: json_dump_in_order_def dict_items_def List.map_filter_simps dump_member_def
        encode_string_def escape_char_def two_keys_text_def two_keys_selector_def)

lemma default_config_text_length: "length default_config_text = 137"
  by (simp add: default_config_text_def)

subsection \<open>C1: what the inventory generator emits\<close>

text \<open>
  C1 says that the inventory generation unit creates \<open>inventory/\<close> under the output
  directory and writes two files into it, an entry-point stub and a container build
  descriptor, so that a run with the default selection leaves \<open>inventory/\<close> with exactly
  those two files. The code does not do this: \<open>generate_dockerfile\<close> builds the text of
  the descriptor and never writes it. The run below starts from an empty file system with
  no configuration file: it creates \<open>generated/inventory\<close> and the file system then holds
  one file, \<open>generated/inventory/main.py\<close>.
\<close>

theorem default_run_writes_main_py_only:
  "generate_microservices json_load ''ecommerce_config.json'' ''generated'' fresh_os =
   (Inr (),
    \<lparr>dirs = {[''generated''], [''generated'', ''inventory'']},
     files = [[''generated'', ''inventory'', ''main.py''] \<mapsto> main_py_content],
     free_space = 98942,
     stdout = [''Inventory service generated at: generated/inventory'']\<rparr>)"
proof -
  have init: "FeatureSelector_init json_load ''ecommerce_config.json'' fresh_os =
      (Inr \<lparr>config_file = ''ecommerce_config.json'', selected_features = default_selection\<rparr>,
       fresh_os)"
    by (simp add: FeatureSelector_init_def load_config_absent_value [OF fresh_os_no_config]
          io_defs)
  have loop: "generate_selected default_selection ''generated'' fresh_os =
      InventoryServiceGenerator_generate ''generated'' fresh_os"
    by (simp add: generate_selected_def default_selection_def generators_def
          inventory_generate_fresh io_defs)
  show ?thesis
    by (simp add: generate_microservices_def io_bind_def init loop inventory_generate_fresh)
qed

subsection \<open>C2: the toggles that are refused\<close>

text \<open>
  C2: for every selection and every pair (category, component id), \<open>toggle_feature\<close>
  fails with the unknown-feature error when the category is not in the catalog or the id
  is not among the category's components, and with the required-feature error when the
  entry is required; in both cases the selection is unchanged. The code signals the
  failure by returning \<open>False\<close> after printing the corresponding error line; the
  selector is returned as it was and nothing but the standard output changes.
\<close>

theorem toggle_feature_rejects:
  "(lookup category feature_id = None \<longrightarrow>
      toggle_feature self category feature_id w =
        (Inr (False, self),
         w\<lparr>stdout := stdout w @ [not_found_message category feature_id]\<rparr>)) \<and>
   (\<forall>c. lookup category feature_id = Some c \<and> required c \<longrightarrow>
      toggle_feature self category feature_id w =
        (Inr (False, self), w\<lparr>stdout := stdout w @ [required_message feature_id]\<rparr>))"
  by (auto simp: lookup_def toggle_feature_def io_defs split: option.splits)

text \<open>
  Instances: a category that is not in the catalog, an identifier that is not in its
  category, and the required feature \<open>gateway\<close>, on the default selector.
\<close>

theorem toggle_feature_rejects_witness:
  "lookup ''extras'' ''reviews'' = None \<and>
   toggle_feature default_selector ''extras'' ''reviews'' fresh_os =
     (Inr (False, default_selector),
      fresh_os\<lparr>stdout := [not_found_message ''extras'' ''reviews'']\<rparr>) \<and>
   lookup ''core'' ''reviews'' = None \<and>
   toggle_feature default_selector ''core'' ''reviews'' fresh_os =
     (Inr (False, default_selector),
      fresh_os\<lparr>stdout := [not_found_message ''core'' ''reviews'']\<rparr>) \<and>
   lookup ''core'' ''gateway'' =
     Some \<lparr>name = ''API Gateway'', description = ''Entry point for all client requests'',
           required = True\<rparr> \<and>
   toggle_feature default_selector ''core'' ''gateway'' fresh_os =
     (Inr (False, default_selector),
      fresh_os\<lparr>stdout := [required_message ''gateway'']\<rparr>) \<and>
   selected_features default_selector ''core'' =
     Some [''gateway'', ''user'', ''catalog'', ''cart'', ''orders'', ''payments'', ''inventory'']"
  using toggle_feature_rejects [of "''extras''" "''reviews''" default_selector fresh_os]
    toggle_feature_rejects [of "''core''" "''reviews''" default_selector fresh_os]
    toggle_feature_rejects [of "''core''" "''gateway''" default_selector fresh_os]
  by (simp add: lookup_def FEATURES_def fresh_os_def default_selector_def
        default_selection_def)

subsection \<open>C3: the default selection\<close>

text \<open>
  C3: when the configuration file is absent, \<open>_load_config\<close> returns the default
  selection: its keys are the categories of the catalog, and the list of each category
  holds exactly the identifiers of the components whose required flag is true. The file
  system is not changed.
\<close>

theorem load_config_absent_default:
  assumes "\<not> os_path_exists w cfile"
  shows "\<exists>sel. load_config json_load cfile w = (Inr sel, w) \<and>
           dom sel = fst ` set FEATURES \<and>
           (\<forall>(cat, data) \<in> set FEATURES.
              \<exists>xs. sel cat = Some xs \<and>
                set xs = {cid. \<exists>c. (cid, c) \<in> set (components data) \<and> required c})"
proof -
  have "load_config json_load cfile w = (Inr default_selection, w)"
    using assms by (rule load_config_absent_value)
  moreover have "\<forall>(cat, data) \<in> set FEATURES.
              \<exists>xs. default_selection cat = Some xs \<and>
                set xs = {cid. \<exists>c. (cid, c) \<in> set (components data) \<and> required c}"
    unfolding required_ids_set [symmetric]
    using default_selection_required by fast
  ultimately show ?thesis using default_selection_dom by blast
qed

theorem load_config_absent_default_witness:
  "\<not> os_path_exists fresh_os ''ecommerce_config.json'' \<and>
   (\<exists>sel. load_config (\<lambda>text. None) ''ecommerce_config.json'' fresh_os = (Inr sel, fresh_os) \<and>
      dom sel = {''core'', ''optional''} \<and>
      (\<exists>xs. sel ''core'' = Some xs \<and>
         set xs = {''gateway'', ''user'', ''catalog'', ''cart'', ''orders'', ''payments'',
                   ''inventory''}) \<and>
      (\<exists>ys. sel ''optional'' = Some ys \<and> set ys = {}))"
proof -
  from load_config_absent_default [OF fresh_os_no_config, of "\<lambda>text. None"]
  obtain sel where
    l: "load_config (\<lambda>text. None) ''ecommerce_config.json'' fresh_os = (Inr sel, fresh_os)" and
    d: "dom sel = fst ` set FEATURES" and
    a: "\<forall>(cat, data) \<in> set FEATURES.
          \<exists>xs. sel cat = Some xs \<and>
            set xs = {cid. \<exists>c. (cid, c) \<in> set (components data) \<and> required c}"
    by blast
  from d have d': "dom sel = {''core'', ''optional''}" by (simp add: FEATURES_def)
  from a have "\<forall>(cat, data) \<in> set FEATURES.
          \<exists>xs. sel cat = Some xs \<and>
            set xs = set (map fst (filter (\<lambda>(cid, c). required c) (components data)))"
    unfolding required_ids_set [symmetric] .
  then have "(\<exists>xs. sel ''core'' = Some xs \<and>
         set xs = {''gateway'', ''user'', ''catalog'', ''cart'', ''orders'', ''payments'',
                   ''inventory''}) \<and>
      (\<exists>ys. sel ''optional'' = Some ys \<and> set ys = {})"
    by (simp add: FEATURES_def del: set_filter set_map)
  with l d' fresh_os_no_config show ?thesis by blast
qed

subsection \<open>C4: toggling twice\<close>

text \<open>
  C4 says that, for every selection and every non-required pair of the catalog, two
  consecutive successful toggles of the pair return the selection to its prior value. The
  code keeps each category as a list and removes one occurrence per call, so the claim
  holds where the list holds the identifier at most once, which is so in every state
  reached from the default by toggles (\<open>default_selection_distinct\<close>,
  \<open>toggle_feature_keeps_distinct\<close>). C4 as amended: if the category's list holds the
  identifier at most once, two consecutive successful toggles leave every other category
  as it was and the category with the same set of identifiers; the selector is exactly the
  prior one when the identifier was not selected, and otherwise the identifier has moved
  to the end of the list.
\<close>

theorem toggle_twice_restores:
  assumes t1: "toggle_feature self category feature_id w = (Inr (True, s1), w1)"
    and t2: "toggle_feature s1 category feature_id w1 = (Inr (True, s2), w2)"
    and xs: "selected_features self category = Some xs"
    and once: "count_list xs feature_id \<le> 1"
  shows "s2 = self\<lparr>selected_features := (selected_features self)(category \<mapsto>
                 (if feature_id \<in> set xs then remove1 feature_id xs @ [feature_id] else xs))\<rparr> \<and>
         set (if feature_id \<in> set xs then remove1 feature_id xs @ [feature_id] else xs) =
           set xs \<and>
         (feature_id \<notin> set xs \<longrightarrow> s2 = self)"
proof -
  from toggle_feature_True [OF t1] xs obtain c where
    c: "lookup category feature_id = Some c" "\<not> required c" by auto
  let ?ys = "if feature_id \<in> set xs then remove1 feature_id xs else xs @ [feature_id]"
  let ?s1 = "self\<lparr>selected_features := (selected_features self)(category \<mapsto> ?ys)\<rparr>"
  from t1 toggle_feature_flip [OF c xs, of w] have s1: "s1 = ?s1" by simp
  have sel1: "selected_features ?s1 category = Some ?ys" by simp
  let ?zs = "if feature_id \<in> set ?ys then remove1 feature_id ?ys else ?ys @ [feature_id]"
  from t2 toggle_feature_flip [OF c sel1, of w1] s1
  have s2: "s2 = self\<lparr>selected_features := (selected_features self)(category \<mapsto> ?zs)\<rparr>"
    by simp
  show ?thesis
  proof (cases "feature_id \<in> set xs")
    case True
    with once have "feature_id \<notin> set (remove1 feature_id xs)"
      by (simp add: count_le1_remove1)
    with True have zs: "?zs = remove1 feature_id xs @ [feature_id]" by simp
    have "set (remove1 feature_id xs @ [feature_id]) = set xs"
      using True by (simp add: set_remove1_insert)
    with s2 zs True show ?thesis by simp
  next
    case False
    then have zs: "?zs = xs" by (simp add: remove1_append_absent)
    have "(selected_features self)(category \<mapsto> xs) = selected_features self"
      using xs by (simp add: map_upd_triv)
    with s2 zs have "s2 = self" by simp
    with s2 zs False show ?thesis by simp
  qed
qed

text \<open>
  An instance: \<open>reviews\<close> toggled twice where \<open>reviews\<close> and \<open>admin\<close> are selected, in
  that order.
\<close>

theorem toggle_twice_restores_witness:
  "toggle_feature (selector_with_optional [''reviews'', ''admin'']) ''optional'' ''reviews''
       fresh_os =
     (Inr (True, selector_with_optional [''admin'']),
      fresh_os\<lparr>stdout := [''Disabled: reviews'']\<rparr>) \<and>
   toggle_feature (selector_with_optional [''admin'']) ''optional'' ''reviews''
       (fresh_os\<lparr>stdout := [''Disabled: reviews'']\<rparr>) =
     (Inr (True, selector_with_optional [''admin'', ''reviews'']),
      fresh_os\<lparr>stdout := [''Disabled: reviews'', ''Enabled: reviews'']\<rparr>) \<and>
   selected_features (selector_with_optional [''reviews'', ''admin'']) ''optional'' =
     Some [''reviews'', ''admin''] \<and>
   count_list [''reviews'', ''admin''] ''reviews'' \<le> 1 \<and>
   selector_with_optional [''admin'', ''reviews''] =
     (selector_with_optional [''reviews'', ''admin''])\<lparr>selected_features :=
        (selected_features (selector_with_optional [''reviews'', ''admin'']))
          (''optional'' \<mapsto> [''admin'', ''reviews''])\<rparr> \<and>
   set [''admin'', ''reviews''] = set [''reviews'', ''admin'']"
proof -
  have t1: "toggle_feature (selector_with_optional [''reviews'', ''admin'']) ''optional''
       ''reviews'' fresh_os =
     (Inr (True, selector_with_optional [''admin'']),
      fresh_os\<lparr>stdout := [''Disabled: reviews'']\<rparr>)"
    by (simp add: toggle_optional_reviews fresh_os_def)
  have t2: "toggle_feature (selector_with_optional [''admin'']) ''optional'' ''reviews''
       (fresh_os\<lparr>stdout := [''Disabled: reviews'']\<rparr>) =
     (Inr (True, selector_with_optional [''admin'', ''reviews'']),
      fresh_os\<lparr>stdout := [''Disabled: reviews'', ''Enabled: reviews'']\<rparr>)"
    by (simp add: toggle_optional_reviews fresh_os_def)
  have xs: "selected_features (selector_with_optional [''reviews'', ''admin'']) ''optional'' =
      Some [''reviews'', ''admin'']"
    by (simp add: selector_with_optional_def)
  have once: "count_list [''reviews'', ''admin''] ''reviews'' \<le> 1" by simp
  from toggle_twice_restores [OF t1 t2 xs once] t1 t2 xs once show ?thesis by simp
qed

text \<open>
  C4 as stated fails on a selection read from a file that lists \<open>reviews\<close> twice: both
  toggles succeed, each removes one occurrence, and \<open>reviews\<close>, selected before, is not
  selected afterwards.
\<close>

theorem toggle_twice_counterexample:
  "toggle_feature (selector_with_optional [''reviews'', ''reviews'']) ''optional'' ''reviews''
       fresh_os =
     (Inr (True, selector_with_optional [''reviews'']),
      fresh_os\<lparr>stdout := [''Disabled: reviews'']\<rparr>) \<and>
   toggle_feature (selector_with_optional [''reviews'']) ''optional'' ''reviews''
       (fresh_os\<lparr>stdout := [''Disabled: reviews'']\<rparr>) =
     (Inr (True, selector_with_optional []),
      fresh_os\<lparr>stdout := [''Disabled: reviews'', ''Disabled: reviews'']\<rparr>) \<and>
   map_option set (selected_features (selector_with_optional []) ''optional'') \<noteq>
   map_option set
     (selected_features (selector_with_optional [''reviews'', ''reviews'']) ''optional'')"
proof -
  have "map_option set (selected_features (selector_with_optional []) ''optional'') \<noteq>
    map_option set
      (selected_features (selector_with_optional [''reviews'', ''reviews'']) ''optional'')"
    by (simp add: selector_with_optional_def)
  then show ?thesis by (simp add: toggle_optional_reviews fresh_os_def)
qed

subsection \<open>C5: saving, then loading\<close>

text \<open>
  C5: for every selection, a save to a path followed by a load from the same path yields
  the selection that was saved. The save writes what \<open>json.dump\<close> with \<open>indent=2\<close>
  writes for the dict, whose keys it enumerates in some order \<open>ks\<close>; the load reads the
  file with \<open>json.load\<close>. Whenever the save succeeds, the load returns the saved
  selection and leaves the state as it is, and building a selector from the file gives
  the selector that was saved.
\<close>

theorem save_then_load_roundtrip:
  assumes saved: "save_config (json_dump_in_order ks) self w = (Inr (), w')"
    and keys: "set ks = dom (selected_features self)"
  shows "load_config json_loads (config_file self) w' = (Inr (selected_features self), w') \<and>
         FeatureSelector_init json_loads (config_file self) w' = (Inr self, w')"
proof -
  have "json_loads (json_dump_in_order ks (selected_features self)) =
      Some (selected_features self)"
    unfolding json_dump_in_order_def using keys by (rule json_roundtrip)
  with saved show ?thesis by (rule save_then_load_codec)
qed

text \<open>
  An instance: the default selector saved to a file system with no configuration file.
  The file then holds the text that Python writes for the default selection, and the load
  gives the default selector back.
\<close>

theorem save_then_load_roundtrip_witness:
  "save_config (json_dump_in_order [''core'', ''optional'']) default_selector fresh_os =
     (Inr (), fresh_os\<lparr>files := [[''ecommerce_config.json''] \<mapsto> default_config_text],
                free_space := 99863,
                stdout := [''Configuration saved to ecommerce_config.json'']\<rparr>) \<and>
   set [''core'', ''optional''] = dom (selected_features default_selector) \<and>
   load_config json_loads (config_file default_selector)
     (fresh_os\<lparr>files := [[''ecommerce_config.json''] \<mapsto> default_config_text],
                free_space := 99863,
                stdout := [''Configuration saved to ecommerce_config.json'']\<rparr>) =
     (Inr (selected_features default_selector),
      fresh_os\<lparr>files := [[''ecommerce_config.json''] \<mapsto> default_config_text],
                free_space := 99863,
                stdout := [''Configuration saved to ecommerce_config.json'']\<rparr>) \<and>
   FeatureSelector_init json_loads (config_file default_selector)
     (fresh_os\<lparr>files := [[''ecommerce_config.json''] \<mapsto> default_config_text],
                free_space := 99863,
                stdout := [''Configuration saved to ecommerce_config.json'']\<rparr>) =
     (Inr default_selector,
      fresh_os\<lparr>files := [[''ecommerce_config.json''] \<mapsto> default_config_text],
                free_space := 99863,
                stdout := [''Configuration saved to ecommerce_config.json'']\<rparr>)"
proof -
  have s: "save_config (json_dump_in_order [''core'', ''optional'']) default_selector fresh_os =
     (Inr (), fresh_os\<lparr>files := [[''ecommerce_config.json''] \<mapsto> default_config_text],
                free_space := 99863,
                stdout := [''Configuration saved to ecommerce_config.json'']\<rparr>)"
    by (simp add: save_config_run default_selector_def resolve_config is_dir_def fresh_os_def
          default_config_text_dump default_config_text_length)
  have k: "set [''core'', ''optional''] = dom (selected_features default_selector)"
    by (auto simp: default_selector_def default_selection_def)
  from save_then_load_roundtrip [OF s k] s k show ?thesis by simp
qed

subsection \<open>C6: a malformed configuration file\<close>

text \<open>
  C6: when a file exists at the path and is malformed (\<open>json.load\<close> raises on its
  text), the load raises the parse error; so do the construction of the selector and
  \<open>generate_microservices\<close>, which call it without handling the exception. No default
  selection is returned and nothing is changed.
\<close>

theorem load_malformed_raises:
  assumes "cfile \<noteq> []" "\<not> is_dir w (resolve cfile)"
    "files w (resolve cfile) = Some text" "json_load text = None"
  shows "load_config json_load cfile w = (Inl JSONDecodeError, w) \<and>
         FeatureSelector_init json_load cfile w = (Inl JSONDecodeError, w) \<and>
         generate_microservices json_load cfile output_dir w = (Inl JSONDecodeError, w)"
proof -
  have "load_config json_load cfile w = (Inl JSONDecodeError, w)"
    using load_config_present [OF assms(1-3), of json_load] assms(4) by simp
  then show ?thesis
    by (simp add: FeatureSelector_init_def generate_microservices_def io_defs)
qed

text \<open>An instance: a configuration file whose text is \<open>{\<close>.\<close>

theorem load_malformed_raises_witness:
  "''ecommerce_config.json'' \<noteq> [] \<and>
   \<not> is_dir (os_with_config ''{'' 100) (resolve ''ecommerce_config.json'') \<and>
   files (os_with_config ''{'' 100) (resolve ''ecommerce_config.json'') = Some ''{'' \<and>
   example_load ''{'' = None \<and>
   load_config example_load ''ecommerce_config.json'' (os_with_config ''{'' 100) =
     (Inl JSONDecodeError, os_with_config ''{'' 100) \<and>
   FeatureSelector_init example_load ''ecommerce_config.json'' (os_with_config ''{'' 100) =
     (Inl JSONDecodeError, os_with_config ''{'' 100) \<and>
   generate_microservices example_load ''ecommerce_config.json'' ''generated''
       (os_with_config ''{'' 100) =
     (Inl JSONDecodeError, os_with_config ''{'' 100)"
proof -
  have a: "''ecommerce_config.json'' \<noteq> []" by simp
  have b: "\<not> is_dir (os_with_config ''{'' 100) (resolve ''ecommerce_config.json'')"
    and c: "files (os_with_config ''{'' 100) (resolve ''ecommerce_config.json'') = Some ''{''"
    by (simp_all add: os_with_config_file)
  have d: "example_load ''{'' = None"
    by (simp add: example_load_def empty_object_text_def core_only_text_def)
  from load_malformed_raises [of "''ecommerce_config.json''" "os_with_config ''{'' 100" "''{''"
      example_load "''generated''", OF a b c d] a b c d
  show ?thesis by blast
qed

subsection \<open>C7: the dispatcher\<close>

text \<open>
  C7 says that, for every selection and output directory, the dispatcher invokes the
  generation unit of each selected identifier that has an entry in the registry and skips
  every other selected identifier silently, the run not failing. The code reads the two
  lists \<open>core\<close> and \<open>optional\<close> before the loop and validates nothing, so the claim holds
  for the selections that have both lists. C7 as amended: for every selection that has
  the lists \<open>core\<close> and \<open>optional\<close> and every output directory, the run is the invocation,
  in order, of the units of the registered identifiers of \<open>core + optional\<close>; an
  identifier with no registered unit is skipped silently (the run on any selection is the
  run on the selection with the unregistered identifiers removed, and where no selected
  identifier is registered the run succeeds and leaves the state as it was). A selection
  that lacks one of the two lists makes the run raise \<open>KeyError\<close> with no unit invoked and
  the state unchanged.
\<close>

theorem generate_selected_dispatch:
  "generate_selected sel output_dir =
     generate_selected (\<lambda>cat. map_option (filter (\<lambda>f. generators f \<noteq> None)) (sel cat))
       output_dir \<and>
   (\<forall>core optional. sel ''core'' = Some core \<and> sel ''optional'' = Some optional \<longrightarrow>
      generate_selected sel output_dir w =
        invoke_units (registered (core @ optional)) output_dir w \<and>
      ((\<forall>f \<in> set (core @ optional). generators f = None) \<longrightarrow>
         generate_selected sel output_dir w = (Inr (), w))) \<and>
   (sel ''core'' = None \<longrightarrow>
      generate_selected sel output_dir w = (Inl (KeyError ''core''), w)) \<and>
   (sel ''core'' \<noteq> None \<and> sel ''optional'' = None \<longrightarrow>
      generate_selected sel output_dir w = (Inl (KeyError ''optional''), w))"
proof -
  have a: "generate_selected sel output_dir =
     generate_selected (\<lambda>cat. map_option (filter (\<lambda>f. generators f \<noteq> None)) (sel cat))
       output_dir"
  proof (cases "sel ''core''")
    case None
    then show ?thesis by (simp add: generate_selected_def)
  next
    case (Some core)
    note core = this
    show ?thesis
    proof (cases "sel ''optional''")
      case None
      with core show ?thesis by (simp add: generate_selected_def)
    next
      case (Some optional)
      have "registered (filter (\<lambda>f. generators f \<noteq> None) core @
                        filter (\<lambda>f. generators f \<noteq> None) optional) =
            registered (core @ optional)"
        using registered_filter [of "core @ optional"] by simp
      with core Some show ?thesis
        by (simp add: generate_selected_def generate_loop_invokes)
    qed
  qed
  have b: "generate_selected sel output_dir w =
        invoke_units (registered (core @ optional)) output_dir w \<and>
      ((\<forall>f \<in> set (core @ optional). generators f = None) \<longrightarrow>
         generate_selected sel output_dir w = (Inr (), w))"
    if c: "sel ''core'' = Some core" and ob: "sel ''optional'' = Some optional"
    for core optional
  proof -
    have e: "generate_selected sel output_dir w =
        invoke_units (registered (core @ optional)) output_dir w"
      using c ob by (simp add: generate_selected_def generate_loop_invokes)
    have "generate_selected sel output_dir w = (Inr (), w)"
      if "\<forall>f \<in> set (core @ optional). generators f = None"
    proof -
      from that have "registered (core @ optional) = []" by (rule registered_none)
      with e show ?thesis by (simp add: io_return_def)
    qed
    with e show ?thesis by blast
  qed
  have c: "generate_selected sel output_dir w = (Inl (KeyError ''core''), w)"
    if "sel ''core'' = None"
    using that by (simp add: generate_selected_def io_raise_def)
  have d: "generate_selected sel output_dir w = (Inl (KeyError ''optional''), w)"
    if "sel ''core'' \<noteq> None" "sel ''optional'' = None"
    using that by (auto simp: generate_selected_def io_raise_def)
  from a b c d show ?thesis by blast
qed

text \<open>
  Instances: a selection of unregistered identifiers only; the default selection, where
  \<open>inventory\<close> alone is registered; and a selection with no list \<open>core\<close>.
\<close>

theorem generate_selected_dispatch_witness:
  "[''core'' \<mapsto> [''gateway'', ''user''], ''optional'' \<mapsto> [''reviews'']] ''core'' =
     Some [''gateway'', ''user''] \<and>
   [''core'' \<mapsto> [''gateway'', ''user''], ''optional'' \<mapsto> [''reviews'']] ''optional'' =
     Some [''reviews''] \<and>
   generators ''gateway'' = None \<and> generators ''user'' = None \<and>
   generators ''reviews'' = None \<and>
   generate_selected [''core'' \<mapsto> [''gateway'', ''user''], ''optional'' \<mapsto> [''reviews'']]
       ''generated'' fresh_os = (Inr (), fresh_os) \<and>
   default_selection ''core'' =
     Some [''gateway'', ''user'', ''catalog'', ''cart'', ''orders'', ''payments'', ''inventory''] \<and>
   default_selection ''optional'' = Some [] \<and>
   registered ([''gateway'', ''user'', ''catalog'', ''cart'', ''orders'', ''payments'',
                ''inventory''] @ []) = [InventoryServiceGenerator] \<and>
   generate_selected default_selection ''generated'' fresh_os =
     invoke_units [InventoryServiceGenerator] ''generated'' fresh_os \<and>
   [''optional'' \<mapsto> [''reviews'']] ''core'' = None \<and>
   generate_selected [''optional'' \<mapsto> [''reviews'']] ''generated'' fresh_os =
     (Inl (KeyError ''core''), fresh_os)"
proof -
  let ?s = "[''core'' \<mapsto> [''gateway'', ''user''], ''optional'' \<mapsto> [''reviews'']]"
  let ?t = "[''optional'' \<mapsto> [''reviews'']]"
  have s1: "?s ''core'' = Some [''gateway'', ''user'']"
    and s2: "?s ''optional'' = Some [''reviews'']" by simp_all
  have g: "generators ''gateway'' = None" "generators ''user'' = None"
    "generators ''reviews'' = None"
    by (simp_all add: generators_def)
  then have un: "\<forall>f \<in> set ([''gateway'', ''user''] @ [''reviews'']). generators f = None"
    by simp
  have d1: "default_selection ''core'' =
     Some [''gateway'', ''user'', ''catalog'', ''cart'', ''orders'', ''payments'', ''inventory'']"
    and d2: "default_selection ''optional'' = Some []"
    by (simp_all add: default_selection_def)
  have r: "registered ([''gateway'', ''user'', ''catalog'', ''cart'', ''orders'', ''payments'',
                ''inventory''] @ []) = [InventoryServiceGenerator]"
    by (simp add: registered_def generators_def List.map_filter_simps)
  have t1: "?t ''core'' = None" by simp
  from generate_selected_dispatch [of ?s "''generated''" fresh_os] s1 s2 un
  have e1: "generate_selected ?s ''generated'' fresh_os = (Inr (), fresh_os)" by blast
  from generate_selected_dispatch [of default_selection "''generated''" fresh_os] d1 d2
  have "generate_selected default_selection ''generated'' fresh_os =
     invoke_units (registered ([''gateway'', ''user'', ''catalog'', ''cart'', ''orders'',
        ''payments'', ''inventory''] @ [])) ''generated'' fresh_os" by blast
  with r have e2: "generate_selected default_selection ''generated'' fresh_os =
     invoke_units [InventoryServiceGenerator] ''generated'' fresh_os" by simp
  from generate_selected_dispatch [of ?t "''generated''" fresh_os] t1
  have e3: "generate_selected ?t ''generated'' fresh_os = (Inl (KeyError ''core''), fresh_os)"
    by blast
  from s1 s2 g e1 d1 d2 r e2 t1 e3 show ?thesis by blast
qed

text \<open>
  C7 as stated fails on a selection read from the file \<open>{"core": ["inventory"]}\<close>:
  \<open>inventory\<close> is selected and has a registered unit, and the run raises \<open>KeyError\<close> for
  the missing list \<open>optional\<close>; the unit is not invoked and nothing is written.
\<close>

theorem generate_selected_missing_list_counterexample:
  "json_loads inventory_only_text = Some [''core'' \<mapsto> [''inventory'']] \<and>
   generators ''inventory'' = Some InventoryServiceGenerator \<and>
   generate_selected [''core'' \<mapsto> [''inventory'']] ''generated''
       (os_with_config inventory_only_text 100000) =
     (Inl (KeyError ''optional''), os_with_config inventory_only_text 100000) \<and>
   generate_microservices json_loads ''ecommerce_config.json'' ''generated''
       (os_with_config inventory_only_text 100000) =
     (Inl (KeyError ''optional''), os_with_config inventory_only_text 100000)"
proof -
  have l: "json_loads inventory_only_text = Some [''core'' \<mapsto> [''inventory'']]"
    by (simp add: json_loads_def inventory_only_text_def dict_of_def)
  have g: "generators ''inventory'' = Some InventoryServiceGenerator"
    by (simp add: generators_def)
  have r: "generate_selected [''core'' \<mapsto> [''inventory'']] ''generated''
       (os_with_config inventory_only_text 100000) =
     (Inl (KeyError ''optional''), os_with_config inventory_only_text 100000)"
    by (simp add: generate_selected_def io_raise_def)
  have f: "\<not> is_dir (os_with_config inventory_only_text 100000)
             (resolve ''ecommerce_config.json'')"
    "files (os_with_config inventory_only_text 100000) (resolve ''ecommerce_config.json'') =
       Some inventory_only_text"
    by (simp_all add: os_with_config_file)
  have "load_config json_loads ''ecommerce_config.json''
       (os_with_config inventory_only_text 100000) =
     (Inr [''core'' \<mapsto> [''inventory'']], os_with_config inventory_only_text 100000)"
    using load_config_present [OF _ f, of json_loads] l by simp
  then have "generate_microservices json_loads ''ecommerce_config.json'' ''generated''
       (os_with_config inventory_only_text 100000) =
     (Inl (KeyError ''optional''), os_with_config inventory_only_text 100000)"
    by (simp add: generate_microservices_def FeatureSelector_init_def io_bind_def io_return_def r)
  with l g r show ?thesis by blast
qed

subsection \<open>C8: what a successful toggle returns\<close>

text \<open>
  C8 says that a successful toggle of a non-required pair of the catalog returns the
  resulting status, enabled when the identifier was added and disabled when it was
  removed. The code returns \<open>True\<close> in both cases and reports the status on the standard
  output. C8 as amended: a toggle of a non-required pair of the catalog, on a selection
  that has the category, returns \<open>True\<close>; it prints \<open>Enabled: id\<close> when it appends the
  identifier to the category's list and \<open>Disabled: id\<close> when it removes it.
\<close>

theorem toggle_feature_returns_True:
  assumes "lookup category feature_id = Some c" "\<not> required c"
    "selected_features self category = Some xs"
  shows "toggle_feature self category feature_id w =
     (Inr (True, self\<lparr>selected_features := (selected_features self)(category \<mapsto>
               (if feature_id \<in> set xs then remove1 feature_id xs else xs @ [feature_id]))\<rparr>),
      w\<lparr>stdout := stdout w @
               [(if feature_id \<in> set xs then ''Disabled: '' else ''Enabled: '') @ feature_id]\<rparr>)"
  using assms by (rule toggle_feature_flip)

text \<open>
  An instance: \<open>toggle("optional", "reviews")\<close> on the default selector enables it, and
  a second identical call disables it.
\<close>

theorem toggle_feature_returns_True_witness:
  "lookup ''optional'' ''reviews'' =
     Some \<lparr>name = ''Reviews Service'', description = ''Product reviews and ratings'',
           required = False\<rparr> \<and>
   selected_features default_selector ''optional'' = Some [] \<and>
   toggle_feature default_selector ''optional'' ''reviews'' fresh_os =
     (Inr (True, default_selector\<lparr>selected_features :=
              (selected_features default_selector)(''optional'' \<mapsto> [''reviews''])\<rparr>),
      fresh_os\<lparr>stdout := [''Enabled: reviews'']\<rparr>) \<and>
   toggle_feature
       (default_selector\<lparr>selected_features :=
              (selected_features default_selector)(''optional'' \<mapsto> [''reviews''])\<rparr>)
       ''optional'' ''reviews'' (fresh_os\<lparr>stdout := [''Enabled: reviews'']\<rparr>) =
     (Inr (True, default_selector\<lparr>selected_features :=
              (selected_features default_selector)(''optional'' \<mapsto> [])\<rparr>),
      fresh_os\<lparr>stdout := [''Enabled: reviews'', ''Disabled: reviews'']\<rparr>)"
proof -
  have l: "lookup ''optional'' ''reviews'' =
     Some \<lparr>name = ''Reviews Service'', description = ''Product reviews and ratings'',
           required = False\<rparr>"
    by (simp add: lookup_def FEATURES_def)
  have nr: "\<not> required \<lparr>name = ''Reviews Service'',
      description = ''Product reviews and ratings'', required = False\<rparr>" by simp
  have x0: "selected_features default_selector ''optional'' = Some []"
    by (simp add: default_selector_def default_selection_def)
  have x1: "selected_features (default_selector\<lparr>selected_features :=
              (selected_features default_selector)(''optional'' \<mapsto> [''reviews''])\<rparr>)
            ''optional'' = Some [''reviews'']" by simp
  from toggle_feature_returns_True [OF l nr x0, of fresh_os]
    toggle_feature_returns_True [OF l nr x1, of "fresh_os\<lparr>stdout := [''Enabled: reviews'']\<rparr>"]
    l x0
  show ?thesis by (simp add: fresh_os_def)
qed

text \<open>
  C8 as stated fails: the call that removes \<open>reviews\<close> and the call that adds it return
  the same value, \<open>True\<close>, so the value returned is not the resulting status.
\<close>

theorem toggle_feature_status_counterexample:
  "toggle_feature (selector_with_optional [''reviews'']) ''optional'' ''reviews'' fresh_os =
     (Inr (True, selector_with_optional []), fresh_os\<lparr>stdout := [''Disabled: reviews'']\<rparr>) \<and>
   selected_features (selector_with_optional []) ''optional'' = Some [] \<and>
   toggle_feature (selector_with_optional []) ''optional'' ''reviews'' fresh_os =
     (Inr (True, selector_with_optional [''reviews'']),
      fresh_os\<lparr>stdout := [''Enabled: reviews'']\<rparr>) \<and>
   selected_features (selector_with_optional [''reviews'']) ''optional'' = Some [''reviews'']"
proof -
  have "selected_features (selector_with_optional []) ''optional'' = Some []"
    and "selected_features (selector_with_optional [''reviews'']) ''optional'' =
      Some [''reviews'']"
    by (simp_all add: selector_with_optional_def)
  then show ?thesis by (simp add: toggle_optional_reviews fresh_os_def)
qed

subsection \<open>C9: a save whose write fails\<close>

text \<open>
  C9 says that a save whose write fails partway does not replace the persisted content by
  a truncated one. The code opens the configuration file for writing, which truncates it,
  and writes the text in place; there is no temporary file and no replacement. C9 as
  amended: where the file can be opened for writing, a save whose text fits stores
  exactly that text and prints the confirmation; a save whose write fails leaves the file
  holding only the part of the new text written before the failure, the previous content
  being lost, and raises.
\<close>

theorem save_config_in_place:
  assumes "config_file self \<noteq> []" "\<not> is_dir w (resolve (config_file self))"
    "is_dir w (butlast (resolve (config_file self)))"
  shows "save_config json_dump self w =
     (if length (json_dump (selected_features self)) \<le> free_space w
      then (Inr (),
        w\<lparr>files := (files w)(resolve (config_file self) \<mapsto> json_dump (selected_features self)),
          free_space := free_space w - length (json_dump (selected_features self)),
          stdout := stdout w @ [''Configuration saved to '' @ config_file self]\<rparr>)
      else (Inl (OSError_ENOSPC (config_file self)),
        w\<lparr>files := (files w)(resolve (config_file self) \<mapsto>
                      take (free_space w) (json_dump (selected_features self))),
          free_space := 0\<rparr>))"
  using assms by (rule save_config_run)

text \<open>An instance: a save that fits, over a file that held \<open>{}\<close>.\<close>

theorem save_config_in_place_witness:
  "config_file two_keys_selector \<noteq> [] \<and>
   \<not> is_dir (os_with_config ''{}'' 100) (resolve (config_file two_keys_selector)) \<and>
   is_dir (os_with_config ''{}'' 100) (butlast (resolve (config_file two_keys_selector))) \<and>
   save_config (\<lambda>sel. two_keys_text) two_keys_selector (os_with_config ''{}'' 100) =
     (Inr (),
      \<lparr>dirs = {}, files = [[''ecommerce_config.json''] \<mapsto> two_keys_text], free_space = 66,
        stdout = [''Configuration saved to ecommerce_config.json'']\<rparr>)"
proof -
  have a: "config_file two_keys_selector \<noteq> []"
    by (simp add: two_keys_selector_def)
  have b: "\<not> is_dir (os_with_config ''{}'' 100) (resolve (config_file two_keys_selector))"
    and c: "is_dir (os_with_config ''{}'' 100) (butlast (resolve (config_file two_keys_selector)))"
    by (simp_all add: two_keys_selector_def os_with_config_file)
  from save_config_in_place [OF a b c, of "\<lambda>sel. two_keys_text"] a b c
  show ?thesis
    by (simp add: two_keys_length two_keys_selector_def os_with_config_def resolve_config)
qed

text \<open>
  C9 as stated fails: the file held \<open>{}\<close>, the device accepts ten more characters, and
  the save raises leaving the first ten characters of the new text in the file.
\<close>

theorem save_config_truncates_counterexample:
  "save_config (\<lambda>sel. two_keys_text) two_keys_selector (os_with_config ''{}'' 10) =
     (Inl (OSError_ENOSPC ''ecommerce_config.json''),
      \<lparr>dirs = {}, files = [[''ecommerce_config.json''] \<mapsto> take 10 two_keys_text],
        free_space = 0, stdout = []\<rparr>) \<and>
   files (os_with_config ''{}'' 10) [''ecommerce_config.json''] = Some ''{}'' \<and>
   take 10 two_keys_text \<noteq> ''{}'' \<and>
   take 10 two_keys_text \<noteq> two_keys_text"
proof -
  have a: "config_file two_keys_selector \<noteq> []"
    by (simp add: two_keys_selector_def)
  have b: "\<not> is_dir (os_with_config ''{}'' 10) (resolve (config_file two_keys_selector))"
    and c: "is_dir (os_with_config ''{}'' 10) (butlast (resolve (config_file two_keys_selector)))"
    by (simp_all add: two_keys_selector_def os_with_config_file)
  have "save_config (\<lambda>sel. two_keys_text) two_keys_selector (os_with_config ''{}'' 10) =
     (Inl (OSError_ENOSPC ''ecommerce_config.json''),
      \<lparr>dirs = {}, files = [[''ecommerce_config.json''] \<mapsto> take 10 two_keys_text],
        free_space = 0, stdout = []\<rparr>)"
    by (simp add: save_config_run [OF a b c] two_keys_length)
       (simp add: two_keys_selector_def os_with_config_def resolve_config)
  moreover have "take 10 two_keys_text \<noteq> ''{}''" "take 10 two_keys_text \<noteq> two_keys_text"
    by (simp_all add: two_keys_text_def)
  ultimately show ?thesis by (simp add: os_with_config_def)
qed

subsection \<open>C10: no validation on load\<close>

text \<open>
  C10: the load does not validate an existing configuration file. Whatever selection
  \<open>json.load\<close> reads is returned as it is, so it may lack a category, hold identifiers
  that are not in the catalog or omit required ones; and when the category of a
  non-required pair of the catalog is missing, as \<open>optional\<close> is in a file that has the
  key \<open>core\<close> only, a toggle of the pair raises \<open>KeyError\<close>.
\<close>

theorem load_unvalidated:
  assumes "cfile \<noteq> []" "\<not> is_dir w (resolve cfile)"
    "files w (resolve cfile) = Some text" "json_load text = Some sel"
  shows "load_config json_load cfile w = (Inr sel, w) \<and>
         FeatureSelector_init json_load cfile w =
           (Inr \<lparr>config_file = cfile, selected_features = sel\<rparr>, w) \<and>
         (\<forall>category feature_id c w'.
            lookup category feature_id = Some c \<and> \<not> required c \<and> sel category = None \<longrightarrow>
            toggle_feature \<lparr>config_file = cfile, selected_features = sel\<rparr> category feature_id w' =
              (Inl (KeyError category), w'))"
proof -
  have l: "load_config json_load cfile w = (Inr sel, w)"
    using load_config_present [OF assms(1-3), of json_load] assms(4) by simp
  then have "FeatureSelector_init json_load cfile w =
           (Inr \<lparr>config_file = cfile, selected_features = sel\<rparr>, w)"
    by (simp add: FeatureSelector_init_def io_defs)
  moreover have "\<forall>category feature_id c w'.
            lookup category feature_id = Some c \<and> \<not> required c \<and> sel category = None \<longrightarrow>
            toggle_feature \<lparr>config_file = cfile, selected_features = sel\<rparr> category feature_id w' =
              (Inl (KeyError category), w')"
    by (auto simp: lookup_def toggle_feature_def io_defs split: option.splits)
  ultimately show ?thesis using l by blast
qed

text \<open>An instance: the configuration file \<open>{"core": []}\<close>.\<close>

theorem load_unvalidated_witness:
  "''ecommerce_config.json'' \<noteq> [] \<and>
   \<not> is_dir (os_with_config core_only_text 100) (resolve ''ecommerce_config.json'') \<and>
   files (os_with_config core_only_text 100) (resolve ''ecommerce_config.json'') =
     Some core_only_text \<and>
   example_load core_only_text = Some [''core'' \<mapsto> []] \<and>
   FeatureSelector_init example_load ''ecommerce_config.json'' (os_with_config core_only_text 100) =
     (Inr \<lparr>config_file = ''ecommerce_config.json'', selected_features = [''core'' \<mapsto> []]\<rparr>,
      os_with_config core_only_text 100) \<and>
   lookup ''optional'' ''reviews'' =
     Some \<lparr>name = ''Reviews Service'', description = ''Product reviews and ratings'',
           required = False\<rparr> \<and>
   [''core'' \<mapsto> ([] :: string list)] ''optional'' = None \<and>
   toggle_feature \<lparr>config_file = ''ecommerce_config.json'', selected_features = [''core'' \<mapsto> []]\<rparr>
       ''optional'' ''reviews'' (os_with_config core_only_text 100) =
     (Inl (KeyError ''optional''), os_with_config core_only_text 100)"
proof -
  have a: "''ecommerce_config.json'' \<noteq> []" by simp
  have b: "\<not> is_dir (os_with_config core_only_text 100) (resolve ''ecommerce_config.json'')"
    and c: "files (os_with_config core_only_text 100) (resolve ''ecommerce_config.json'') =
      Some core_only_text"
    by (simp_all add: os_with_config_file)
  have d: "example_load core_only_text = Some [''core'' \<mapsto> []]"
    by (simp add: example_load_def empty_object_text_def core_only_text_def)
  have l: "lookup ''optional'' ''reviews'' =
     Some \<lparr>name = ''Reviews Service'', description = ''Product reviews and ratings'',
           required = False\<rparr>"
    by (simp add: lookup_def FEATURES_def)
  have n: "[''core'' \<mapsto> ([] :: string list)] ''optional'' = None" by simp
  from load_unvalidated [of "''ecommerce_config.json''" "os_with_config core_only_text 100"
      core_only_text example_load "[''core'' \<mapsto> []]", OF a b c d] a b c d l n
  show ?thesis by simp
qed

end
